theory Spec2Isabelle
  imports Main "HOL-Library.Sublist"
begin

section \<open>JavaScript strings\<close>

text \<open>
  Strings are lists of characters. The three string methods the handlers use are
  \<^verbatim>\<open>toLowerCase\<close>, \<^verbatim>\<open>includes\<close> and \<^verbatim>\<open>startsWith\<close>. \<^verbatim>\<open>toLowerCase\<close> maps the letters
  A to Z to a to z and leaves every other character alone, which is what JavaScript does on
  ASCII text; all the messages and keywords of the program are ASCII.
\<close>

definition toLowerChar :: "char \<Rightarrow> char" where
  "toLowerChar c =
     (let n = (of_char c :: nat) in if 65 \<le> n \<and> n \<le> 90 then char_of (n + 32) else c)"

definition toLowerCase :: "string \<Rightarrow> string" where
  "toLowerCase s = map toLowerChar s"

definition str_includes :: "string \<Rightarrow> string \<Rightarrow> bool" where
  "str_includes s needle = sublist needle s"

definition startsWith :: "string \<Rightarrow> string \<Rightarrow> bool" where
  "startsWith s p = prefix p s"

section \<open>types.ts\<close>

record MetricData =
  metric_value :: int
  metric_target :: int
  metric_status :: string

record Improvement =
  issue :: string
  drill :: string
  instructions :: "string list"

record TechnicalData =
  torso_angle :: MetricData
  plant_foot_offset :: MetricData

record CoachingTips =
  en :: string
  mk :: string
  es :: string

datatype ResponseStatus = StatusSuccess | StatusError

text \<open>Every field marked \<^verbatim>\<open>?\<close> in the interface is an option: \<open>None\<close> is \<^verbatim>\<open>undefined\<close>.\<close>

record AnalysisResponse =
  resp_status :: ResponseStatus
  form_score :: "int option"
  score_label :: "string option"
  score_color :: "string option"
  action_detected :: "string option"
  key_strengths :: "string list option"
  areas_for_improvement :: "Improvement list option"
  technical_data :: "TechnicalData option"
  coaching_tips :: "CoachingTips option"

datatype AppStatus = IDLE | ANALYZING | SUCCESS | ERROR

record File =
  fileName :: string
  fileType :: string
  fileData :: "nat list"

section \<open>Object URLs\<close>

text \<open>
  \<^verbatim>\<open>URL.createObjectURL\<close> hands out a fresh handle on every call; \<^verbatim>\<open>URL.revokeObjectURL\<close>
  releases one. The store counts the handles created so far (they are numbered from 0) and
  keeps the set of the revoked ones.
\<close>

record UrlStore =
  created :: nat
  revoked :: "nat set"

definition createObjectURL :: "UrlStore \<Rightarrow> nat \<times> UrlStore" where
  "createObjectURL st = (created st, st\<lparr>created := Suc (created st)\<rparr>)"

definition revokeObjectURL :: "nat \<Rightarrow> UrlStore \<Rightarrow> UrlStore" where
  "revokeObjectURL u st = st\<lparr>revoked := insert u (revoked st)\<rparr>"

definition live :: "UrlStore \<Rightarrow> nat \<Rightarrow> bool" where
  "live st u = (u < created st \<and> u \<notin> revoked st)"

section \<open>services/geminiService.ts: analyzeVideo\<close>

text \<open>
  A thrown value is an \<^verbatim>\<open>Error\<close> instance with its message, or some other value (for which
  \<^verbatim>\<open>err instanceof Error\<close> is false).
\<close>

datatype thrown = JsError string | NonErrorValue

text \<open>
  The collaborators of \<^verbatim>\<open>analyzeVideo\<close>: the credential \<^verbatim>\<open>process.env.API_KEY\<close>, the
  \<^verbatim>\<open>FileReader\<close> (an error, or \<^verbatim>\<open>reader.result\<close> when it is a string), the call
  \<^verbatim>\<open>ai.models.generateContent\<close> (it throws, or answers with \<^verbatim>\<open>response.text\<close>), and
  \<^verbatim>\<open>JSON.parse\<close>. The effects a call has on the outside are logged in order.
\<close>

record Env =
  API_KEY :: "string option"
  readAsDataURL :: "File \<Rightarrow> thrown + string option"
  generateContent :: "string option \<Rightarrow> string \<Rightarrow> thrown + string option"
  JSON_parse :: "string \<Rightarrow> thrown + AnalysisResponse"

datatype effect = ReadFile File | Request "string option" string

text \<open>\<^verbatim>\<open>result.split(',')\<close>, and \<^verbatim>\<open>parts[1]\<close>, which is undefined when there is no comma.\<close>

fun split_comma :: "string \<Rightarrow> string list" where
  "split_comma [] = [[]]"
| "split_comma (c # cs) =
     (if c = CHR '','' then [] # split_comma cs
      else (case split_comma cs of p # ps \<Rightarrow> (c # p) # ps | [] \<Rightarrow> [[c]]))"

definition index_opt :: "'a list \<Rightarrow> nat \<Rightarrow> 'a option" where
  "index_opt xs i = (if i < length xs then Some (xs ! i) else None)"

definition fileToGenerativePart :: "Env \<Rightarrow> File \<Rightarrow> thrown + string option" where
  "fileToGenerativePart env file =
     (case readAsDataURL env file of
        Inl e \<Rightarrow> Inl e
      | Inr None \<Rightarrow> Inl (JsError ''Failed to read file'')
      | Inr (Some r) \<Rightarrow>
          if r = [] then Inl (JsError ''Failed to read file'')
          else Inr (index_opt (split_comma r) 1))"

definition analyzeVideo :: "Env \<Rightarrow> File \<Rightarrow> (thrown + AnalysisResponse) \<times> effect list" where
  "analyzeVideo env file =
     (if API_KEY env = None \<or> API_KEY env = Some []
      then (Inl (JsError ''API Key is missing. Please check your environment configuration.''), [])
      else
        (case fileToGenerativePart env file of
           Inl e \<Rightarrow> (Inl e, [ReadFile file])
         | Inr base64Data \<Rightarrow>
             (case generateContent env base64Data (fileType file) of
                Inl e \<Rightarrow> (Inl e, [ReadFile file, Request base64Data (fileType file)])
              | Inr text \<Rightarrow>
                  ((case text of
                      None \<Rightarrow> Inl (JsError ''No response from AI'')
                    | Some t \<Rightarrow>
                        if t = [] then Inl (JsError ''No response from AI'') else JSON_parse env t),
                   [ReadFile file, Request base64Data (fileType file)]))))"

section \<open>App.tsx: the application state controller\<close>

datatype InputMode = MENU | UPLOAD | CAMERA

record App =
  status :: AppStatus
  inputMode :: InputMode
  result :: "AnalysisResponse option"
  selectedFile :: "File option"
  videoUrl :: "nat option"
  errorMsg :: "string option"

definition handleFileSelect :: "File \<Rightarrow> App \<times> UrlStore \<Rightarrow> App \<times> UrlStore" where
  "handleFileSelect file = (\<lambda>(a, st).
     (let (url, st') = createObjectURL st
      in (a\<lparr>selectedFile := Some file, videoUrl := Some url, status := IDLE,
             result := None, errorMsg := None, inputMode := MENU\<rparr>, st')))"

text \<open>
  The effect with dependency \<^verbatim>\<open>[videoUrl]\<close>: when a render has changed \<^verbatim>\<open>videoUrl\<close>, the
  cleanup of the previous render runs and revokes the previous URL; on unmount the cleanup of
  the last render runs.
\<close>

definition videoUrlCleanup :: "App \<Rightarrow> UrlStore \<Rightarrow> UrlStore" where
  "videoUrlCleanup a st = (case videoUrl a of Some u \<Rightarrow> revokeObjectURL u st | None \<Rightarrow> st)"

definition videoUrlEffect :: "App \<Rightarrow> App \<Rightarrow> UrlStore \<Rightarrow> UrlStore" where
  "videoUrlEffect prev cur st = (if videoUrl prev \<noteq> videoUrl cur then videoUrlCleanup prev st else st)"

text \<open>The message the \<^verbatim>\<open>catch\<close> block of \<^verbatim>\<open>handleAnalyze\<close> computes from the thrown value.\<close>

definition catchMessage :: "thrown \<Rightarrow> string" where
  "catchMessage err =
     (case err of
        NonErrorValue \<Rightarrow> ''An unexpected error occurred during analysis. Please try again.''
      | JsError m \<Rightarrow>
          (let lowerMsg = toLowerCase m in
           if str_includes lowerMsg ''api key''
           then ''Configuration Error: API Key is missing or invalid.''
           else if str_includes lowerMsg ''safety'' \<or> str_includes lowerMsg ''blocked''
           then ''Analysis blocked: The video content was flagged by safety filters. Please ensure the video clearly shows sports training.''
           else if str_includes lowerMsg ''quota'' \<or> str_includes lowerMsg ''429''
           then ''Usage limit exceeded. The AI service is busy, please try again in a few minutes.''
           else if str_includes lowerMsg ''503'' \<or> str_includes lowerMsg ''overloaded''
           then ''The AI service is currently overloaded. Please wait a moment and try again.''
           else if str_includes lowerMsg ''fetch'' \<or> str_includes lowerMsg ''network''
           then ''Network Error: Please check your internet connection.''
           else if str_includes lowerMsg ''json''
           then ''Data Error: The AI response could not be processed. Please try a clearer video clip.''
           else if length m > 5 \<and> length m < 200 then m
           else ''An unexpected error occurred during analysis. Please try again.''))"

text \<open>
  \<^verbatim>\<open>handleAnalyze\<close> is asynchronous. \<open>handleAnalyze_begin\<close> is the part up to the
  \<^verbatim>\<open>await\<close>: the guard, the two setters, and the file handed to \<^verbatim>\<open>analyzeVideo\<close> (\<open>None\<close>
  when the guard returns). \<open>handleAnalyze_settle\<close> is the part after the \<^verbatim>\<open>await\<close>, on
  the outcome of the call. \<open>handleAnalyze\<close> is one whole run.
\<close>

definition handleAnalyze_begin :: "App \<Rightarrow> App \<times> File option" where
  "handleAnalyze_begin a =
     (case selectedFile a of
        None \<Rightarrow> (a, None)
      | Some file \<Rightarrow> (a\<lparr>status := ANALYZING, errorMsg := None\<rparr>, Some file))"

definition handleAnalyze_catch :: "thrown \<Rightarrow> App \<Rightarrow> App" where
  "handleAnalyze_catch err a = a\<lparr>status := ERROR, errorMsg := Some (catchMessage err)\<rparr>"

definition handleAnalyze_settle :: "thrown + AnalysisResponse \<Rightarrow> App \<Rightarrow> App" where
  "handleAnalyze_settle outcome a =
     (case outcome of
        Inl err \<Rightarrow> handleAnalyze_catch err a
      | Inr data \<Rightarrow>
          if resp_status data = StatusError
          then handleAnalyze_catch (JsError ''Analysis failed: The video was unclear or not a recognized football drill. Please try again with a clearer video.'') a
          else a\<lparr>result := Some data, status := SUCCESS\<rparr>)"

definition handleAnalyze :: "Env \<Rightarrow> App \<Rightarrow> App \<times> effect list" where
  "handleAnalyze env a =
     (case handleAnalyze_begin a of
        (a1, None) \<Rightarrow> (a1, [])
      | (a1, Some file) \<Rightarrow>
          (let (outcome, effs) = analyzeVideo env file in (handleAnalyze_settle outcome a1, effs)))"

definition resetApp :: "App \<Rightarrow> App" where
  "resetApp a = a\<lparr>result := None, selectedFile := None, videoUrl := None, status := IDLE,
                   inputMode := MENU, errorMsg := None\<rparr>"

text \<open>The guard in front of \<^verbatim>\<open><AnalysisResult .../>\<close>.\<close>

definition rendersResult :: "App \<Rightarrow> bool" where
  "rendersResult a = (result a \<noteq> None \<and> status a = SUCCESS \<and> videoUrl a \<noteq> None)"

section \<open>components/VideoUploader.tsx\<close>

record VideoUploader =
  preview :: "nat option"

text \<open>
  The page: the controller's state, the uploader while it is mounted, and the object URLs of
  the browser. The uploader is rendered exactly when no file is selected and the input mode
  is \<^verbatim>\<open>UPLOAD\<close>; \<open>commit\<close> is what React does after the controller's state has changed:
  it runs the \<^verbatim>\<open>[videoUrl]\<close> effect and mounts or unmounts the uploader. The uploader has no
  effect of its own, so nothing runs when it is unmounted.
\<close>

record Page =
  app :: App
  uploader :: "VideoUploader option"
  urls :: UrlStore

definition uploaderRendered :: "App \<Rightarrow> bool" where
  "uploaderRendered a = (selectedFile a = None \<and> inputMode a = UPLOAD)"

definition commit :: "App \<Rightarrow> Page \<Rightarrow> Page" where
  "commit prev p =
     p\<lparr>urls := videoUrlEffect prev (app p) (urls p),
       uploader := (if uploaderRendered (app p)
                    then (case uploader p of None \<Rightarrow> Some \<lparr>preview = None\<rparr> | Some u \<Rightarrow> Some u)
                    else None)\<rparr>"

definition setInputMode :: "InputMode \<Rightarrow> Page \<Rightarrow> Page" where
  "setInputMode m p = commit (app p) (p\<lparr>app := (app p)\<lparr>inputMode := m\<rparr>\<rparr>)"

definition onFileSelect :: "File \<Rightarrow> Page \<Rightarrow> Page" where
  "onFileSelect file p =
     (let (a', st') = handleFileSelect file (app p, urls p)
      in commit (app p) (p\<lparr>app := a', urls := st'\<rparr>))"

definition clickReset :: "Page \<Rightarrow> Page" where
  "clickReset p = commit (app p) (p\<lparr>app := resetApp (app p)\<rparr>)"

text \<open>The uploader's handlers; \<open>files\<close> is the event's file list, of which only the first counts.\<close>

definition handleFileChange :: "File list \<Rightarrow> Page \<Rightarrow> Page" where
  "handleFileChange files p =
     (case (uploader p, files) of
        (Some up, file # _) \<Rightarrow>
          (let (objectUrl, st') = createObjectURL (urls p)
           in onFileSelect file (p\<lparr>uploader := Some (up\<lparr>preview := Some objectUrl\<rparr>), urls := st'\<rparr>))
      | _ \<Rightarrow> p)"

definition handleDrop :: "File list \<Rightarrow> Page \<Rightarrow> Page" where
  "handleDrop files p =
     (if status (app p) = ANALYZING then p
      else
        (case (uploader p, files) of
           (Some up, file # _) \<Rightarrow>
             if startsWith (fileType file) ''video/''
             then (let (objectUrl, st') = createObjectURL (urls p)
                   in onFileSelect file (p\<lparr>uploader := Some (up\<lparr>preview := Some objectUrl\<rparr>), urls := st'\<rparr>))
             else p
         | _ \<Rightarrow> p))"

definition clearSelection :: "Page \<Rightarrow> Page" where
  "clearSelection p =
     (case uploader p of Some up \<Rightarrow> p\<lparr>uploader := Some (up\<lparr>preview := None\<rparr>)\<rparr> | None \<Rightarrow> p)"

section \<open>components/AnalysisResult.tsx\<close>

datatype Language = LangEn | LangMk | LangEs

text \<open>What the component puts on the screen.\<close>

record ImprovementView =
  critical :: bool
  issue_text :: string
  drill_text :: string
  steps :: "(nat \<times> string) list"

record MetricView =
  shown_metric :: MetricData
  off_target :: bool

record View =
  shown_action :: string
  shown_label :: string
  label_muted :: bool
  shown_score :: int
  score_class :: string
  shown_coaching :: string
  shown_technical :: "(MetricView \<times> MetricView) option"
  shown_strengths :: "string list"
  shown_improvements :: "ImprovementView list"

definition getScoreColor :: "int \<Rightarrow> string" where
  "getScoreColor s =
     (if s \<ge> 8 then ''text-emerald-400 border-emerald-500/50 shadow-[0_0_20px_rgba(52,211,153,0.3)]''
      else if s \<ge> 5 then ''text-yellow-400 border-yellow-500/50 shadow-[0_0_20px_rgba(250,204,21,0.3)]''
      else ''text-red-400 border-red-500/50 shadow-[0_0_20px_rgba(248,113,113,0.3)]'')"

text \<open>
  \<^verbatim>\<open>trim\<close> strips white space and line terminators at both ends; among the characters of
  the model these are tab, line feed, vertical tab, form feed, carriage return, space and the
  no-break space.
\<close>

definition isSpace :: "char \<Rightarrow> bool" where
  "isSpace c =
     (c \<in> set [CHR 0x09, CHR 0x0A, CHR 0x0B, CHR 0x0C, CHR 0x0D, CHR 0x20, CHR 0xA0])"

definition trim :: "string \<Rightarrow> string" where
  "trim s = rev (dropWhile isSpace (rev (dropWhile isSpace s)))"

definition renderImprovement :: "Improvement \<Rightarrow> ImprovementView" where
  "renderImprovement item =
     (let crit = startsWith (toLowerCase (issue item)) ''critical:''
      in \<lparr>critical = crit,
          issue_text = (if crit then trim (drop 9 (issue item)) else issue item),
          drill_text = drill item,
          steps = zip (map Suc [0 ..< length (instructions item)]) (instructions item)\<rparr>)"

definition renderTechnical :: "TechnicalData \<Rightarrow> MetricView \<times> MetricView" where
  "renderTechnical td =
     (\<lparr>shown_metric = torso_angle td,
       off_target = (\<bar>metric_value (torso_angle td) - metric_target (torso_angle td)\<bar> > 10)\<rparr>,
      \<lparr>shown_metric = plant_foot_offset td,
       off_target = (\<bar>metric_value (plant_foot_offset td) - metric_target (plant_foot_offset td)\<bar> > 5)\<rparr>)"

definition pickLanguage :: "CoachingTips \<Rightarrow> Language \<Rightarrow> string" where
  "pickLanguage tips language = (case language of LangEn \<Rightarrow> en tips | LangMk \<Rightarrow> mk tips | LangEs \<Rightarrow> es tips)"

text \<open>
  The two places of the component where an undefined value would throw a \<^verbatim>\<open>TypeError\<close>:
  \<^verbatim>\<open>xs.map(f)\<close> on an undefined list and \<^verbatim>\<open>coaching_tips[language]\<close> on undefined tips.
\<close>

definition typeError :: thrown where
  "typeError = JsError ''TypeError: Cannot read properties of undefined''"

definition js_map :: "('a \<Rightarrow> 'b) \<Rightarrow> 'a list option \<Rightarrow> thrown + 'b list" where
  "js_map f xs = (case xs of None \<Rightarrow> Inl typeError | Some l \<Rightarrow> Inr (map f l))"

definition js_member :: "CoachingTips option \<Rightarrow> Language \<Rightarrow> thrown + string" where
  "js_member tips language =
     (case tips of None \<Rightarrow> Inl typeError | Some t \<Rightarrow> Inr (pickLanguage t language))"

text \<open>
  A destructuring default, \<^verbatim>\<open>{ x = d } = data\<close>: the variable is bound to the field, or to
  \<open>d\<close> when the field is undefined.
\<close>

definition orDefault :: "'a \<Rightarrow> 'a option \<Rightarrow> 'a option" where
  "orDefault d x = (case x of None \<Rightarrow> Some d | Some v \<Rightarrow> Some v)"

text \<open>
  The component destructures its \<^verbatim>\<open>data\<close> with defaults and renders from the destructured
  values: the coaching text of the language, then the two lists; \<^verbatim>\<open>technical_data\<close> has no
  default and its card is behind \<^verbatim>\<open>technical_data &&\<close>. An undefined score, label or action
  would be rendered as nothing, without an exception; the score is also compared with 8 and 5.
  The result is the screen, or the exception that ends the render.
\<close>

definition AnalysisResult :: "AnalysisResponse \<Rightarrow> Language \<Rightarrow> thrown + View" where
  "AnalysisResult data language =
     (let form_score' = (case form_score data of None \<Rightarrow> 0 | Some v \<Rightarrow> v);
          score_label' = (case score_label data of None \<Rightarrow> ''N/A'' | Some v \<Rightarrow> v);
          action_detected' = (case action_detected data of None \<Rightarrow> ''Unknown'' | Some v \<Rightarrow> v);
          key_strengths' = orDefault [] (key_strengths data);
          areas_for_improvement' = orDefault [] (areas_for_improvement data);
          coaching_tips' = orDefault \<lparr>en = [], mk = [], es = []\<rparr> (coaching_tips data)
      in case js_member coaching_tips' language of
           Inl e \<Rightarrow> Inl e
         | Inr coaching \<Rightarrow>
             (case js_map (\<lambda>item. item) key_strengths' of
                Inl e \<Rightarrow> Inl e
              | Inr strengths \<Rightarrow>
                  (case js_map renderImprovement areas_for_improvement' of
                     Inl e \<Rightarrow> Inl e
                   | Inr improvements \<Rightarrow>
                       Inr \<lparr>shown_action = action_detected',
                            shown_label = score_label',
                            label_muted = (form_score' \<ge> 5),
                            shown_score = form_score',
                            score_class = getScoreColor form_score',
                            shown_coaching = coaching,
                            shown_technical = map_option renderTechnical (technical_data data),
                            shown_strengths = strengths,
                            shown_improvements = improvements\<rparr>)))"

section \<open>components/CameraCapture.tsx\<close>

datatype OscillatorType = sine | square

datatype RecorderState = inactive | recording

text \<open>A media stream is the list of its tracks; a blob is its bytes.\<close>

type_synonym MediaStream = "nat list"

text \<open>
  What the component does to the outside, in order: a call of \<^verbatim>\<open>setCountdownValue\<close> (the
  number on the screen), a tone started by \<^verbatim>\<open>playBeep\<close>, a \<^verbatim>\<open>mediaRecorder.start()\<close>, and a
  file handed to \<^verbatim>\<open>onCapture\<close>.
\<close>

datatype emission =
    CountdownValue "nat option"
  | Beep nat OscillatorType
  | RecorderStart MediaStream
  | Capture File

text \<open>
  The refs and the state of the component, followed by the browser around it: whether the
  audio and camera interfaces exist, the tracks that have been stopped, the intervals that are
  running, the pending one-second waits of the countdown (each with the value of the loop
  variable \<^verbatim>\<open>i\<close> of the suspended loop), and the \<^verbatim>\<open>stop\<close> events a \<^verbatim>\<open>MediaRecorder.stop()\<close>
  has queued. \<open>videoRef\<close> is \<open>None\<close> when there is no \<^verbatim>\<open><video>\<close> element, and otherwise
  holds the element's \<^verbatim>\<open>srcObject\<close>.
\<close>

record Camera =
  mounted :: bool
  videoRef :: "MediaStream option option"
  mediaRecorderRef :: "RecorderState option"
  chunksRef :: "nat list list"
  streamRef :: "MediaStream option"
  isRecording :: bool
  isCountingDown :: bool
  countdownValue :: "nat option"
  useTimer :: bool
  error :: "string option"
  recordingTime :: nat
  recordingIntervalRef :: "nat option"
  audioContext :: bool
  mediaDevices :: bool
  endedTracks :: "nat set"
  intervals :: "nat set"
  nextTimer :: nat
  timeouts :: "nat list"
  stopEvents :: nat
  outputs :: "emission list"

text \<open>A state setter does nothing once the component is unmounted.\<close>

definition setState :: "(Camera \<Rightarrow> Camera) \<Rightarrow> Camera \<Rightarrow> Camera" where
  "setState upd c = (if mounted c then upd c else c)"

definition setIsRecording :: "bool \<Rightarrow> Camera \<Rightarrow> Camera" where
  "setIsRecording b = setState (\<lambda>c. c\<lparr>isRecording := b\<rparr>)"

definition setIsCountingDown :: "bool \<Rightarrow> Camera \<Rightarrow> Camera" where
  "setIsCountingDown b = setState (\<lambda>c. c\<lparr>isCountingDown := b\<rparr>)"

definition setCountdownValue :: "nat option \<Rightarrow> Camera \<Rightarrow> Camera" where
  "setCountdownValue v c =
     setState (\<lambda>c. c\<lparr>countdownValue := v\<rparr>) (c\<lparr>outputs := outputs c @ [CountdownValue v]\<rparr>)"

text \<open>
  With an error the component returns the error view, which has no \<^verbatim>\<open><video>\<close> element;
  when the error is cleared the element is rendered again, without a \<^verbatim>\<open>srcObject\<close>.
\<close>

definition setError :: "string option \<Rightarrow> Camera \<Rightarrow> Camera" where
  "setError e = setState (\<lambda>c.
     c\<lparr>error := e,
       videoRef := (if e \<noteq> None then None
                    else if error c \<noteq> None then Some None
                    else videoRef c)\<rparr>)"

definition stopTracks :: "MediaStream \<Rightarrow> Camera \<Rightarrow> Camera" where
  "stopTracks stream c = c\<lparr>endedTracks := endedTracks c \<union> set stream\<rparr>"

text \<open>
  \<^verbatim>\<open>startCamera\<close> up to its \<^verbatim>\<open>await\<close> (the flag tells whether \<^verbatim>\<open>getUserMedia\<close> was called),
  and its two continuations.
\<close>

definition startCamera_begin :: "Camera \<Rightarrow> Camera \<times> bool" where
  "startCamera_begin c =
     (let c1 = setError None c in
      if \<not> mediaDevices c1
      then (setError (Some ''Camera API not supported in this browser.'') c1, False)
      else ((case streamRef c1 of Some s \<Rightarrow> stopTracks s c1 | None \<Rightarrow> c1), True))"

definition startCamera_resolve :: "MediaStream \<Rightarrow> Camera \<Rightarrow> Camera" where
  "startCamera_resolve stream c =
     (let c1 = c\<lparr>streamRef := Some stream\<rparr>
      in (case videoRef c1 of Some _ \<Rightarrow> c1\<lparr>videoRef := Some (Some stream)\<rparr> | None \<Rightarrow> c1))"

record DOMException =
  err_name :: string
  err_message :: "string option"

definition startCamera_reject :: "DOMException \<Rightarrow> Camera \<Rightarrow> Camera" where
  "startCamera_reject err c =
     setError (Some
       (if err_name err = ''NotAllowedError'' \<or> err_name err = ''PermissionDeniedError''
        then ''Camera permission was denied. Please allow camera access in your browser settings.''
        else if err_name err = ''NotFoundError'' then ''No camera found on this device.''
        else if err_name err = ''NotReadableError''
        then ''Camera is currently in use by another application.''
        else if (case err_message err of
                   None \<Rightarrow> False
                 | Some m \<Rightarrow> m \<noteq> [] \<and> str_includes (toLowerCase m) ''dismissed'')
        then ''Camera permission request was dismissed. Please reload and allow access.''
        else ''Could not access camera. Please ensure permissions are granted.'')) c"

text \<open>The cleanup of the mount effect, and the unmount that runs it and detaches the ref.\<close>

definition cleanup :: "Camera \<Rightarrow> Camera" where
  "cleanup c =
     (let c1 = (case streamRef c of Some s \<Rightarrow> stopTracks s c | None \<Rightarrow> c)
      in (case recordingIntervalRef c1 of
            Some timer \<Rightarrow> c1\<lparr>intervals := intervals c1 - {timer}\<rparr>
          | None \<Rightarrow> c1))"

definition unmount :: "Camera \<Rightarrow> Camera" where
  "unmount c = (cleanup c)\<lparr>mounted := False, videoRef := None\<rparr>"

definition playBeep :: "nat \<Rightarrow> OscillatorType \<Rightarrow> Camera \<Rightarrow> Camera" where
  "playBeep freq type c = (if audioContext c then c\<lparr>outputs := outputs c @ [Beep freq type]\<rparr> else c)"

definition srcObject :: "Camera \<Rightarrow> MediaStream option" where
  "srcObject c = (case videoRef c of Some (Some s) \<Rightarrow> Some s | _ \<Rightarrow> None)"

definition stopRecording :: "Camera \<Rightarrow> Camera" where
  "stopRecording c =
     (if mediaRecorderRef c = Some recording
      then
        (let c1 = c\<lparr>mediaRecorderRef := Some inactive, stopEvents := Suc (stopEvents c)\<rparr>;
             c2 = setIsRecording False c1
         in (case recordingIntervalRef c2 of
               Some timer \<Rightarrow> c2\<lparr>intervals := intervals c2 - {timer}, recordingIntervalRef := None\<rparr>
             | None \<Rightarrow> c2))
      else c)"

definition startRecording :: "Camera \<Rightarrow> Camera" where
  "startRecording c =
     (case srcObject c of
        None \<Rightarrow> c
      | Some stream \<Rightarrow>
          (let c1 = c\<lparr>mediaRecorderRef := Some recording, chunksRef := [],
                      outputs := outputs c @ [RecorderStart stream]\<rparr>;
               c2 = setIsRecording True c1;
               c3 = setState (\<lambda>c. c\<lparr>recordingTime := 0\<rparr>) c2;
               timer = nextTimer c3
           in c3\<lparr>recordingIntervalRef := Some timer, intervals := insert timer (intervals c3),
                 nextTimer := Suc timer\<rparr>))"

text \<open>
  The callback of the one-second interval: the updater passed to \<^verbatim>\<open>setRecordingTime\<close>, which
  calls \<^verbatim>\<open>stopRecording\<close> and then returns the new value.
\<close>

definition intervalFires :: "nat \<Rightarrow> Camera \<Rightarrow> Camera" where
  "intervalFires timer c =
     (if timer \<in> intervals c \<and> mounted c
      then (if recordingTime c \<ge> 10 then (stopRecording c)\<lparr>recordingTime := 10\<rparr>
            else c\<lparr>recordingTime := recordingTime c + 1\<rparr>)
      else c)"

text \<open>
  The two handlers of the recorder, and the browser delivering \<^verbatim>\<open>dataavailable\<close> and \<^verbatim>\<open>stop\<close>
  for one queued stop, with the data recorded.
\<close>

definition ondataavailable :: "nat list \<Rightarrow> Camera \<Rightarrow> Camera" where
  "ondataavailable data c = (if length data > 0 then c\<lparr>chunksRef := chunksRef c @ [data]\<rparr> else c)"

definition onstop :: "Camera \<Rightarrow> Camera" where
  "onstop c =
     (let blob = concat (chunksRef c);
          file = \<lparr>fileName = ''drill_recording.webm'', fileType = ''video/webm'', fileData = blob\<rparr>
      in c\<lparr>outputs := outputs c @ [Capture file]\<rparr>)"

definition recorderStops :: "nat list \<Rightarrow> Camera \<Rightarrow> Camera" where
  "recorderStops data c =
     (case stopEvents c of
        0 \<Rightarrow> c
      | Suc n \<Rightarrow> onstop (ondataavailable data (c\<lparr>stopEvents := n\<rparr>)))"

text \<open>
  \<^verbatim>\<open>handleStartSequence\<close> is asynchronous. \<open>countdownStep i\<close> is one pass of the loop body
  up to its \<^verbatim>\<open>await\<close>, which leaves a one-second wait pending; \<open>timeoutFires\<close> is the
  oldest pending wait running out: the loop goes on with \<^verbatim>\<open>i--\<close>, or the function finishes.
\<close>

definition countdownStep :: "nat \<Rightarrow> Camera \<Rightarrow> Camera" where
  "countdownStep i c =
     (let c1 = setCountdownValue (Some i) c;
          c2 = playBeep 800 sine c1
      in c2\<lparr>timeouts := timeouts c2 @ [i]\<rparr>)"

definition handleStartSequence :: "Camera \<Rightarrow> Camera" where
  "handleStartSequence c =
     (if srcObject c = None then c
      else if useTimer c then countdownStep 5 (setIsCountingDown True c)
      else startRecording c)"

definition timeoutFires :: "Camera \<Rightarrow> Camera" where
  "timeoutFires c =
     (case timeouts c of
        [] \<Rightarrow> c
      | i # rest \<Rightarrow>
          (let c1 = c\<lparr>timeouts := rest\<rparr> in
           if i - 1 > 0 then countdownStep (i - 1) c1
           else startRecording
                  (setIsCountingDown False (setCountdownValue None (playBeep 1200 square c1)))))"

text \<open>The component as it is first rendered, in a browser with camera and audio.\<close>

definition initialCamera :: Camera where
  "initialCamera =
     \<lparr>mounted = True, videoRef = Some None, mediaRecorderRef = None, chunksRef = [],
      streamRef = None, isRecording = False, isCountingDown = False, countdownValue = None,
      useTimer = True, error = None, recordingTime = 0, recordingIntervalRef = None,
      audioContext = True, mediaDevices = True, endedTracks = {}, intervals = {},
      nextTimer = 1, timeouts = [], stopEvents = 0, outputs = []\<rparr>"

text \<open>The camera once \<^verbatim>\<open>getUserMedia\<close> has answered with a stream of two tracks.\<close>

definition readyCamera :: Camera where
  "readyCamera = startCamera_resolve [0, 1] (fst (startCamera_begin initialCamera))"

section \<open>Runs and concrete inputs\<close>



definition afterWaits :: "nat \<Rightarrow> Camera \<Rightarrow> Camera" where
  "afterWaits k c = (timeoutFires ^^ k) (handleStartSequence c)"

text \<open>A recording started on the ready camera; its interval has the timer id 1.\<close>

definition recordingCamera :: Camera where
  "recordingCamera = startRecording readyCamera"

text \<open>The ready camera torn down two seconds into a countdown.\<close>

definition tornDownCamera :: Camera where
  "tornDownCamera = unmount (afterWaits 2 readyCamera)"

definition drillFile :: File where
  "drillFile = \<lparr>fileName = ''drill.mp4'', fileType = ''video/mp4'', fileData = [0, 1, 2]\<rparr>"

definition menuApp :: App where
  "menuApp = \<lparr>status = IDLE, inputMode = MENU, result = None, selectedFile = None,
              videoUrl = None, errorMsg = None\<rparr>"

definition stagedApp :: App where
  "stagedApp = menuApp\<lparr>selectedFile := Some drillFile, videoUrl := Some 0\<rparr>"

definition analyzingApp :: App where
  "analyzingApp = fst (handleAnalyze_begin stagedApp)"

definition bareResponse :: "ResponseStatus \<Rightarrow> AnalysisResponse" where
  "bareResponse st =
     \<lparr>resp_status = st, form_score = None, score_label = None, score_color = None,
      action_detected = None, key_strengths = None, areas_for_improvement = None,
      technical_data = None, coaching_tips = None\<rparr>"

text \<open>
  A success response with a score, one improvement and the coaching texts, and without label,
  colour, action, strengths and technical data.
\<close>

definition partialResponse :: AnalysisResponse where
  "partialResponse =
     (bareResponse StatusSuccess)
       \<lparr>form_score := Some 7,
        areas_for_improvement :=
          Some [\<lparr>issue = ''Leaning back'', drill = ''Wall Taps'',
                 instructions = [''Stand 2m from wall'', ''Strike with instep'']\<rparr>],
        coaching_tips := Some \<lparr>en = ''Great effort!'', mk = ''Bravo!'', es = ''Buen trabajo!''\<rparr>\<rparr>"

text \<open>An environment without the credential; its other collaborators all answer.\<close>

definition noKeyEnv :: Env where
  "noKeyEnv =
     \<lparr>API_KEY = None,
      readAsDataURL = (\<lambda>f. Inr (Some ''data:video/mp4;base64,AAEC'')),
      generateContent = (\<lambda>d m. Inr (Some ''{}'')),
      JSON_parse = (\<lambda>t. Inr (bareResponse StatusSuccess))\<rparr>"

text \<open>The page with the upload screen open and nothing selected.\<close>

definition uploadPage :: Page where
  "uploadPage =
     setInputMode UPLOAD \<lparr>app = menuApp, uploader = None, urls = \<lparr>created = 0, revoked = {}\<rparr>\<rparr>"

section \<open>The application state controller\<close>

lemma toLowerCase_keeps_429:
  assumes "str_includes m ''429''"
  shows "str_includes (toLowerCase m) ''429''"
proof -
  from assms have "sublist (map toLowerChar ''429'') (map toLowerChar m)"
    unfolding str_includes_def by (rule map_mono_sublist)
  moreover have "map toLowerChar ''429'' = ''429''"
    by code_simp
  ultimately show ?thesis
    by (simp add: str_includes_def toLowerCase_def)
qed

lemma unclear_video_message:
  "catchMessage (JsError ''Analysis failed: The video was unclear or not a recognized football drill. Please try again with a clearer video.'')
   = ''Analysis failed: The video was unclear or not a recognized football drill. Please try again with a clearer video.''"
  by code_simp

lemma missing_key_message:
  "catchMessage (JsError ''API Key is missing. Please check your environment configuration.'')
   = ''Configuration Error: API Key is missing or invalid.''"
  by code_simp

lemma handleAnalyze_run:
  assumes "selectedFile a = Some file"
  shows "handleAnalyze env a =
           (handleAnalyze_settle (fst (analyzeVideo env file)) (a\<lparr>status := ANALYZING, errorMsg := None\<rparr>),
            snd (analyzeVideo env file))"
  using assms by (simp add: handleAnalyze_def handleAnalyze_begin_def split_beta)

lemma analyzingApp_eq: "analyzingApp = stagedApp\<lparr>status := ANALYZING\<rparr>"
  by (simp add: analyzingApp_def handleAnalyze_begin_def stagedApp_def menuApp_def)

lemma handleAnalyze_error_result:
  assumes "selectedFile a = Some file"
    and "fst (analyzeVideo env file) = Inr data"
    and "resp_status data = StatusError"
  shows "fst (handleAnalyze env a) =
           a\<lparr>status := ERROR,
              errorMsg := Some ''Analysis failed: The video was unclear or not a recognized football drill. Please try again with a clearer video.''\<rparr>"
  using assms(2,3)
  by (simp add: handleAnalyze_run [OF assms(1)] handleAnalyze_settle_def handleAnalyze_catch_def
      unclear_video_message)

lemma handleAnalyze_success_result:
  assumes "selectedFile a = Some file"
    and "fst (analyzeVideo env file) = Inr data"
    and "resp_status data = StatusSuccess"
  shows "fst (handleAnalyze env a) = a\<lparr>status := SUCCESS, errorMsg := None, result := Some data\<rparr>"
  using assms(2,3)
  by (simp add: handleAnalyze_run [OF assms(1)] handleAnalyze_settle_def)

text \<open>
  C8. A file selection, from any state of the controller, leaves the phase idle, the new file
  staged, no result and no error message, and the video reference is the URL created for the
  new file, a handle that did not exist before.
\<close>

theorem file_select_resets_state:
  "status (fst (handleFileSelect file (a, st))) = IDLE \<and>
   selectedFile (fst (handleFileSelect file (a, st))) = Some file \<and>
   result (fst (handleFileSelect file (a, st))) = None \<and>
   errorMsg (fst (handleFileSelect file (a, st))) = None \<and>
   videoUrl (fst (handleFileSelect file (a, st))) = Some (created st) \<and>
   \<not> live st (created st)"
  by (simp add: handleFileSelect_def createObjectURL_def live_def)

theorem file_select_resets_state_witness:
  "status (fst (handleFileSelect drillFile (stagedApp\<lparr>status := ERROR, errorMsg := Some ''x''\<rparr>, \<lparr>created = 1, revoked = {}\<rparr>))) = IDLE \<and>
   videoUrl (fst (handleFileSelect drillFile (stagedApp\<lparr>status := ERROR, errorMsg := Some ''x''\<rparr>, \<lparr>created = 1, revoked = {}\<rparr>))) = Some 1 \<and>
   errorMsg (fst (handleFileSelect drillFile (stagedApp\<lparr>status := ERROR, errorMsg := Some ''x''\<rparr>, \<lparr>created = 1, revoked = {}\<rparr>))) = None"
  using file_select_resets_state
    [of drillFile "stagedApp\<lparr>status := ERROR, errorMsg := Some ''x''\<rparr>" "\<lparr>created = 1, revoked = {}\<rparr>"]
  by simp

text \<open>
  C10. With no file staged, the analyze action stops at its guard: the controller's state is
  what it was, no file is handed to the adapter, and a whole run has no effect on the outside.
\<close>

theorem analyze_without_file_is_noop:
  assumes "selectedFile a = None"
  shows "handleAnalyze_begin a = (a, None) \<and> handleAnalyze env a = (a, [])"
  using assms by (simp add: handleAnalyze_def handleAnalyze_begin_def)

theorem analyze_without_file_is_noop_witness:
  "selectedFile menuApp = None \<and> handleAnalyze_begin menuApp = (menuApp, None)
   \<and> handleAnalyze noKeyEnv menuApp = (menuApp, [])"
proof -
  have h: "selectedFile menuApp = None"
    by (simp add: menuApp_def)
  from analyze_without_file_is_noop [OF h, of noKeyEnv] h show ?thesis
    by simp
qed

text \<open>
  C2. When the adapter returns a response whose status is \<^verbatim>\<open>error\<close>, the continuation of the
  analyze action puts the controller in the error phase with the fixed message about an
  unclear video or an unrecognized drill, leaves the result as it was (so it stays null), and
  the guard in front of the result presentation is false.
\<close>

theorem error_result_routes_to_error_phase:
  assumes "resp_status data = StatusError"
  shows "status (handleAnalyze_settle (Inr data) a) = ERROR \<and>
         errorMsg (handleAnalyze_settle (Inr data) a) =
           Some ''Analysis failed: The video was unclear or not a recognized football drill. Please try again with a clearer video.'' \<and>
         result (handleAnalyze_settle (Inr data) a) = result a \<and>
         \<not> rendersResult (handleAnalyze_settle (Inr data) a)"
  using assms
  by (simp add: handleAnalyze_settle_def handleAnalyze_catch_def unclear_video_message
      rendersResult_def)

theorem error_result_routes_to_error_phase_witness:
  "resp_status (bareResponse StatusError) = StatusError \<and>
   status (handleAnalyze_settle (Inr (bareResponse StatusError)) analyzingApp) = ERROR \<and>
   result (handleAnalyze_settle (Inr (bareResponse StatusError)) analyzingApp) = None \<and>
   \<not> rendersResult (handleAnalyze_settle (Inr (bareResponse StatusError)) analyzingApp)"
proof -
  have h: "resp_status (bareResponse StatusError) = StatusError"
    by (simp add: bareResponse_def)
  have r: "result analyzingApp = None"
    by (simp add: analyzingApp_eq stagedApp_def menuApp_def)
  from error_result_routes_to_error_phase [OF h, of analyzingApp] h r show ?thesis
    by simp
qed

text \<open>
  C6, as stated: every thrown error whose message contains 429 is shown as the rate-limit
  message. It is not: the checks for \<^verbatim>\<open>api key\<close>, \<^verbatim>\<open>safety\<close> and \<^verbatim>\<open>blocked\<close> come first in the
  chain, so a message with 429 and one of these words gets their message.
\<close>

theorem rate_limit_message_counterexample:
  "str_includes ''429 Too Many Requests: this API key is rate limited'' ''429'' \<and>
   errorMsg (handleAnalyze_settle
               (Inl (JsError ''429 Too Many Requests: this API key is rate limited'')) analyzingApp)
     = Some ''Configuration Error: API Key is missing or invalid.'' \<and>
   errorMsg (handleAnalyze_settle
               (Inl (JsError ''429 Too Many Requests: this API key is rate limited'')) analyzingApp)
     \<noteq> Some ''Usage limit exceeded. The AI service is busy, please try again in a few minutes.''"
proof -
  have a: "str_includes ''429 Too Many Requests: this API key is rate limited'' ''429''"
    by code_simp
  have b: "catchMessage (JsError ''429 Too Many Requests: this API key is rate limited'')
             = ''Configuration Error: API Key is missing or invalid.''"
    by code_simp
  show ?thesis
    using a by (simp add: handleAnalyze_settle_def handleAnalyze_catch_def b)
qed

text \<open>
  C6, amended. For every \<^verbatim>\<open>Error\<close> thrown out of the analysis call whose message contains 429
  and whose lower-cased message contains none of \<^verbatim>\<open>api key\<close>, \<^verbatim>\<open>safety\<close> and \<^verbatim>\<open>blocked\<close>, the
  controller enters the error phase and the message shown is the fixed rate-limit message,
  which is not the thrown text.
\<close>

theorem rate_limit_message:
  assumes "str_includes m ''429''"
    and "\<not> str_includes (toLowerCase m) ''api key''"
    and "\<not> str_includes (toLowerCase m) ''safety''"
    and "\<not> str_includes (toLowerCase m) ''blocked''"
  shows "status (handleAnalyze_settle (Inl (JsError m)) a) = ERROR \<and>
         errorMsg (handleAnalyze_settle (Inl (JsError m)) a) =
           Some ''Usage limit exceeded. The AI service is busy, please try again in a few minutes.'' \<and>
         ''Usage limit exceeded. The AI service is busy, please try again in a few minutes.'' \<noteq> m"
proof -
  have k: "str_includes (toLowerCase m) ''429''"
    using assms(1) by (rule toLowerCase_keeps_429)
  have n: "\<not> str_includes ''Usage limit exceeded. The AI service is busy, please try again in a few minutes.'' ''429''"
    by code_simp
  from n assms(1)
  have d: "''Usage limit exceeded. The AI service is busy, please try again in a few minutes.'' \<noteq> m"
    by blast
  have "catchMessage (JsError m) =
          ''Usage limit exceeded. The AI service is busy, please try again in a few minutes.''"
    using k assms(2-4) by (simp add: catchMessage_def)
  then show ?thesis
    using d by (simp add: handleAnalyze_settle_def handleAnalyze_catch_def)
qed

theorem rate_limit_message_witness:
  "str_includes ''got status: 429 Too Many Requests'' ''429'' \<and>
   \<not> str_includes (toLowerCase ''got status: 429 Too Many Requests'') ''api key'' \<and>
   \<not> str_includes (toLowerCase ''got status: 429 Too Many Requests'') ''safety'' \<and>
   \<not> str_includes (toLowerCase ''got status: 429 Too Many Requests'') ''blocked'' \<and>
   status (handleAnalyze_settle (Inl (JsError ''got status: 429 Too Many Requests'')) analyzingApp) = ERROR \<and>
   errorMsg (handleAnalyze_settle (Inl (JsError ''got status: 429 Too Many Requests'')) analyzingApp) =
     Some ''Usage limit exceeded. The AI service is busy, please try again in a few minutes.''"
proof -
  have h1: "str_includes ''got status: 429 Too Many Requests'' ''429''"
    by code_simp
  have h2: "\<not> str_includes (toLowerCase ''got status: 429 Too Many Requests'') ''api key''"
    by code_simp
  have h3: "\<not> str_includes (toLowerCase ''got status: 429 Too Many Requests'') ''safety''"
    by code_simp
  have h4: "\<not> str_includes (toLowerCase ''got status: 429 Too Many Requests'') ''blocked''"
    by code_simp
  from rate_limit_message [OF h1 h2 h3 h4, of analyzingApp] h1 h2 h3 h4 show ?thesis
    by simp
qed

text \<open>
  C7. Without the credential (undefined, or the empty string), \<^verbatim>\<open>analyzeVideo\<close> throws its
  configuration error with nothing read and nothing requested, and a whole run of the analyze
  action on a staged file ends in the error phase with the configuration message. The
  adapter's two other messages of its own are not shown as the configuration message.
\<close>

theorem missing_credential_fails_first:
  assumes "API_KEY env = None \<or> API_KEY env = Some []"
  shows "analyzeVideo env file =
           (Inl (JsError ''API Key is missing. Please check your environment configuration.''), []) \<and>
         (selectedFile a = Some file \<longrightarrow>
            handleAnalyze env a =
              (a\<lparr>status := ERROR,
                 errorMsg := Some ''Configuration Error: API Key is missing or invalid.''\<rparr>, [])) \<and>
         catchMessage (JsError ''No response from AI'')
           \<noteq> ''Configuration Error: API Key is missing or invalid.'' \<and>
         catchMessage (JsError ''Failed to read file'')
           \<noteq> ''Configuration Error: API Key is missing or invalid.''"
proof -
  have a: "analyzeVideo env file =
             (Inl (JsError ''API Key is missing. Please check your environment configuration.''), [])"
    using assms by (auto simp add: analyzeVideo_def)
  have b: "handleAnalyze env a =
             (a\<lparr>status := ERROR,
                errorMsg := Some ''Configuration Error: API Key is missing or invalid.''\<rparr>, [])"
    if "selectedFile a = Some file"
    by (simp add: handleAnalyze_run [OF that] a handleAnalyze_settle_def handleAnalyze_catch_def
        missing_key_message)
  have c: "catchMessage (JsError ''No response from AI'') = ''No response from AI''"
    by code_simp
  have d: "catchMessage (JsError ''Failed to read file'') = ''Failed to read file''"
    by code_simp
  show ?thesis
    using a b by (simp add: c d)
qed

theorem missing_credential_fails_first_witness:
  "API_KEY noKeyEnv = None \<and> selectedFile stagedApp = Some drillFile \<and>
   snd (analyzeVideo noKeyEnv drillFile) = [] \<and>
   status (fst (handleAnalyze noKeyEnv stagedApp)) = ERROR \<and>
   errorMsg (fst (handleAnalyze noKeyEnv stagedApp)) =
     Some ''Configuration Error: API Key is missing or invalid.'' \<and>
   snd (handleAnalyze noKeyEnv stagedApp) = []"
proof -
  have h: "API_KEY noKeyEnv = None \<or> API_KEY noKeyEnv = Some []"
    by (simp add: noKeyEnv_def)
  have s: "selectedFile stagedApp = Some drillFile"
    by (simp add: stagedApp_def)
  have k: "API_KEY noKeyEnv = None"
    by (simp add: noKeyEnv_def)
  from missing_credential_fails_first [OF h, of drillFile stagedApp] s k show ?thesis
    by simp
qed

section \<open>The result presentation\<close>

lemma AnalysisResult_renders:
  "AnalysisResult data language =
     Inr \<lparr>shown_action = (case action_detected data of None \<Rightarrow> ''Unknown'' | Some v \<Rightarrow> v),
          shown_label = (case score_label data of None \<Rightarrow> ''N/A'' | Some v \<Rightarrow> v),
          label_muted = ((case form_score data of None \<Rightarrow> 0 | Some v \<Rightarrow> v) \<ge> 5),
          shown_score = (case form_score data of None \<Rightarrow> 0 | Some v \<Rightarrow> v),
          score_class = getScoreColor (case form_score data of None \<Rightarrow> 0 | Some v \<Rightarrow> v),
          shown_coaching =
            (case coaching_tips data of None \<Rightarrow> [] | Some t \<Rightarrow> pickLanguage t language),
          shown_technical = map_option renderTechnical (technical_data data),
          shown_strengths = (case key_strengths data of None \<Rightarrow> [] | Some v \<Rightarrow> v),
          shown_improvements =
            (case areas_for_improvement data of None \<Rightarrow> [] | Some v \<Rightarrow> map renderImprovement v)\<rparr>"
  by (cases language)
     (simp_all add: AnalysisResult_def Let_def orDefault_def js_map_def js_member_def
        pickLanguage_def split: option.splits)

text \<open>
  C3. For every response and every language the render ends with a screen and not with an
  exception, and on that screen every optional field is shown as it is when it is present and
  as its default when it is absent: no strengths and no improvements for a missing list, 0 for
  a missing score, \<^verbatim>\<open>N/A\<close> for a missing label; likewise \<^verbatim>\<open>Unknown\<close> for a missing action, an
  empty coaching text for missing tips and no technical card for missing technical data. The
  colour class of the score is that of the score shown.
\<close>

theorem result_presentation_defaults:
  "\<exists>view. AnalysisResult data language = Inr view \<and>
     (key_strengths data = None \<longrightarrow> shown_strengths view = []) \<and>
     (\<forall>ks. key_strengths data = Some ks \<longrightarrow> shown_strengths view = ks) \<and>
     (areas_for_improvement data = None \<longrightarrow> shown_improvements view = []) \<and>
     (\<forall>items. areas_for_improvement data = Some items \<longrightarrow>
        shown_improvements view = map renderImprovement items) \<and>
     (form_score data = None \<longrightarrow> shown_score view = 0) \<and>
     (\<forall>n. form_score data = Some n \<longrightarrow> shown_score view = n) \<and>
     (score_label data = None \<longrightarrow> shown_label view = ''N/A'') \<and>
     (\<forall>l. score_label data = Some l \<longrightarrow> shown_label view = l) \<and>
     (action_detected data = None \<longrightarrow> shown_action view = ''Unknown'') \<and>
     (\<forall>a. action_detected data = Some a \<longrightarrow> shown_action view = a) \<and>
     (coaching_tips data = None \<longrightarrow> shown_coaching view = []) \<and>
     (\<forall>t. coaching_tips data = Some t \<longrightarrow> shown_coaching view = pickLanguage t language) \<and>
     (technical_data data = None \<longrightarrow> shown_technical view = None) \<and>
     (\<forall>td. technical_data data = Some td \<longrightarrow> shown_technical view = Some (renderTechnical td)) \<and>
     score_class view = getScoreColor (shown_score view) \<and>
     label_muted view = (shown_score view \<ge> 5)"
  by (simp add: AnalysisResult_renders)

theorem result_presentation_defaults_witness:
  "resp_status partialResponse = StatusSuccess \<and>
   key_strengths partialResponse = None \<and>
   score_label partialResponse = None \<and>
   form_score partialResponse = Some 7 \<and>
   (\<exists>view. AnalysisResult partialResponse LangEn = Inr view \<and>
      shown_strengths view = [] \<and>
      shown_label view = ''N/A'' \<and>
      shown_score view = 7 \<and>
      shown_action view = ''Unknown'' \<and>
      shown_coaching view = ''Great effort!'' \<and>
      shown_technical view = None \<and>
      shown_improvements view =
        [\<lparr>critical = False, issue_text = ''Leaning back'', drill_text = ''Wall Taps'',
          steps = [(1, ''Stand 2m from wall''), (2, ''Strike with instep'')]\<rparr>])"
proof -
  have h: "resp_status partialResponse = StatusSuccess"
    "key_strengths partialResponse = None"
    "score_label partialResponse = None"
    "form_score partialResponse = Some 7"
    "action_detected partialResponse = None"
    "technical_data partialResponse = None"
    "coaching_tips partialResponse =
       Some \<lparr>en = ''Great effort!'', mk = ''Bravo!'', es = ''Buen trabajo!''\<rparr>"
    "areas_for_improvement partialResponse =
       Some [\<lparr>issue = ''Leaning back'', drill = ''Wall Taps'',
               instructions = [''Stand 2m from wall'', ''Strike with instep'']\<rparr>]"
    by (simp_all add: partialResponse_def bareResponse_def)
  have c: "startsWith (toLowerCase ''Leaning back'') ''critical:'' = False"
    by code_simp
  have r: "renderImprovement \<lparr>issue = ''Leaning back'', drill = ''Wall Taps'',
               instructions = [''Stand 2m from wall'', ''Strike with instep'']\<rparr> =
             \<lparr>critical = False, issue_text = ''Leaning back'', drill_text = ''Wall Taps'',
               steps = [(1, ''Stand 2m from wall''), (2, ''Strike with instep'')]\<rparr>"
    by (simp add: renderImprovement_def c)
  from result_presentation_defaults [of partialResponse LangEn] show ?thesis
    by (elim exE conjE) (simp add: h r pickLanguage_def)
qed

section \<open>Object URLs of the page\<close>

lemma uploadPage_eq:
  "uploadPage =
     \<lparr>app = menuApp\<lparr>inputMode := UPLOAD\<rparr>, uploader = Some \<lparr>preview = None\<rparr>,
      urls = \<lparr>created = 0, revoked = {}\<rparr>\<rparr>"
  by (simp add: uploadPage_def setInputMode_def commit_def videoUrlEffect_def uploaderRendered_def
      menuApp_def)

lemma upload_drill:
  "handleFileChange [drillFile] uploadPage =
     \<lparr>app = menuApp\<lparr>selectedFile := Some drillFile, videoUrl := Some 1\<rparr>, uploader = None,
      urls = \<lparr>created = 2, revoked = {}\<rparr>\<rparr>"
  by (simp add: uploadPage_eq handleFileChange_def onFileSelect_def handleFileSelect_def
      createObjectURL_def commit_def videoUrlEffect_def videoUrlCleanup_def uploaderRendered_def
      menuApp_def)

lemma upload_drill_reset:
  "clickReset (handleFileChange [drillFile] uploadPage) =
     \<lparr>app = menuApp, uploader = None, urls = \<lparr>created = 2, revoked = {1}\<rparr>\<rparr>"
  by (simp add: upload_drill clickReset_def resetApp_def commit_def videoUrlEffect_def
      videoUrlCleanup_def revokeObjectURL_def uploaderRendered_def menuApp_def)

lemma clearSelection_revokes_nothing: "urls (clearSelection p) = urls p"
  by (simp add: clearSelection_def split: option.splits)

lemma controller_url_released:
  assumes "videoUrl (app p) = Some u"
  shows "\<not> live (urls (clickReset p)) u"
  using assms
  by (simp add: clickReset_def resetApp_def commit_def videoUrlEffect_def videoUrlCleanup_def
      revokeObjectURL_def live_def)

text \<open>
  C9. The claim holds for the controller's URL and fails for the uploader's. Picking
  \<^verbatim>\<open>drill.mp4\<close> on the upload screen creates two object URLs: 0, the uploader's preview, and
  1, the controller's \<^verbatim>\<open>videoUrl\<close>. The selection unmounts the uploader, whose preview URL
  stays live with no component holding it; a reset afterwards revokes URL 1 through the
  controller's effect and still leaves URL 0 live.
\<close>

theorem uploader_preview_url_never_revoked:
  "created (urls uploadPage) = 0 \<and>
   created (urls (handleFileChange [drillFile] uploadPage)) = 2 \<and>
   uploader (handleFileChange [drillFile] uploadPage) = None \<and>
   videoUrl (app (handleFileChange [drillFile] uploadPage)) = Some 1 \<and>
   live (urls (handleFileChange [drillFile] uploadPage)) 0 \<and>
   videoUrl (app (clickReset (handleFileChange [drillFile] uploadPage))) = None \<and>
   \<not> live (urls (clickReset (handleFileChange [drillFile] uploadPage))) 1 \<and>
   live (urls (clickReset (handleFileChange [drillFile] uploadPage))) 0"
  apply (simp only: upload_drill_reset)
  apply (simp only: upload_drill)
  apply (simp add: uploadPage_eq live_def menuApp_def)
  done

section \<open>The media capture controller\<close>

lemmas camera_defs =
  setState_def setIsRecording_def setIsCountingDown_def setCountdownValue_def setError_def
  stopTracks_def playBeep_def srcObject_def stopRecording_def startRecording_def
  intervalFires_def ondataavailable_def onstop_def recorderStops_def countdownStep_def
  handleStartSequence_def timeoutFires_def cleanup_def unmount_def

lemma readyCamera_eq:
  "readyCamera = initialCamera\<lparr>videoRef := Some (Some [0, 1]), streamRef := Some [0, 1]\<rparr>"
  by (simp add: readyCamera_def initialCamera_def startCamera_begin_def startCamera_resolve_def
      camera_defs)

lemma recordingCamera_eq:
  "recordingCamera =
     readyCamera\<lparr>mediaRecorderRef := Some recording, isRecording := True,
       recordingIntervalRef := Some 1, intervals := {1}, nextTimer := 2,
       outputs := [RecorderStart [0, 1]]\<rparr>"
  by (simp add: recordingCamera_def readyCamera_eq initialCamera_def camera_defs)

lemma ticks_before_ceiling:
  "timer \<in> intervals c \<Longrightarrow> mounted c \<Longrightarrow> recordingTime c + k \<le> 10 \<Longrightarrow>
   (intervalFires timer ^^ k) c = c\<lparr>recordingTime := recordingTime c + k\<rparr>"
proof (induction k arbitrary: c)
  case 0
  then show ?case by simp
next
  case (Suc k)
  have step: "intervalFires timer c = c\<lparr>recordingTime := recordingTime c + 1\<rparr>"
    using Suc.prems by (simp add: intervalFires_def)
  have "(intervalFires timer ^^ Suc k) c = (intervalFires timer ^^ k) (intervalFires timer c)"
    by (simp add: funpow_swap1)
  also have "\<dots> = (c\<lparr>recordingTime := recordingTime c + 1\<rparr>)\<lparr>recordingTime := recordingTime c + 1 + k\<rparr>"
    using Suc.prems by (subst step, subst Suc.IH) simp_all
  finally show ?case by simp
qed

lemma ticks_without_interval: "timer \<notin> intervals c \<Longrightarrow> (intervalFires timer ^^ k) c = c"
  by (induction k) (simp_all add: intervalFires_def)

text \<open>
  What teardown does in any state: it ends the tracks of the stream the component holds and
  stops the interval it holds, and it leaves every pending countdown wait in place.
\<close>

lemma unmount_stops_stream:
  assumes "streamRef c = Some stream"
  shows "set stream \<subseteq> endedTracks (unmount c)"
  using assms by (simp add: unmount_def cleanup_def stopTracks_def Let_def split: option.splits)

lemma unmount_clears_interval:
  assumes "recordingIntervalRef c = Some timer"
  shows "timer \<notin> intervals (unmount c)"
  using assms by (simp add: unmount_def cleanup_def stopTracks_def Let_def split: option.splits)

lemma unmount_keeps_waits: "timeouts (unmount c) = timeouts c"
  by (simp add: unmount_def cleanup_def stopTracks_def Let_def split: option.splits)

lemma ten_ticks: "(intervalFires 1 ^^ 10) recordingCamera = recordingCamera\<lparr>recordingTime := 10\<rparr>"
proof -
  have "(intervalFires 1 ^^ 10) recordingCamera =
          recordingCamera\<lparr>recordingTime := recordingTime recordingCamera + 10\<rparr>"
    by (rule ticks_before_ceiling) (simp_all add: recordingCamera_eq readyCamera_eq initialCamera_def)
  then show ?thesis
    by (simp add: recordingCamera_eq readyCamera_eq initialCamera_def)
qed

lemma eleven_ticks:
  "(intervalFires 1 ^^ 11) recordingCamera =
     recordingCamera\<lparr>recordingTime := 10, mediaRecorderRef := Some inactive, stopEvents := 1,
       isRecording := False, intervals := {}, recordingIntervalRef := None\<rparr>"
proof -
  have "(intervalFires 1 ^^ 11) recordingCamera = intervalFires 1 ((intervalFires 1 ^^ 10) recordingCamera)"
    by (simp add: eval_nat_numeral)
  then show ?thesis
    unfolding ten_ticks
    by (simp add: recordingCamera_eq readyCamera_eq initialCamera_def camera_defs)
qed

lemma ticks_after_stop:
  "(intervalFires 1 ^^ (11 + n)) recordingCamera = (intervalFires 1 ^^ 11) recordingCamera"
proof -
  have "(intervalFires 1 ^^ (n + 11)) recordingCamera =
          (intervalFires 1 ^^ n) ((intervalFires 1 ^^ 11) recordingCamera)"
    by (simp only: funpow_add o_apply)
  also have "\<dots> = (intervalFires 1 ^^ 11) recordingCamera"
    by (rule ticks_without_interval) (simp only: eleven_ticks, simp)
  finally show ?thesis
    by (simp only: add.commute [of 11 n])
qed

lemma three_ticks: "(intervalFires 1 ^^ 3) recordingCamera = recordingCamera\<lparr>recordingTime := 3\<rparr>"
proof -
  have "(intervalFires 1 ^^ 3) recordingCamera =
          recordingCamera\<lparr>recordingTime := recordingTime recordingCamera + 3\<rparr>"
    by (rule ticks_before_ceiling) (simp_all add: recordingCamera_eq readyCamera_eq initialCamera_def)
  then show ?thesis
    by (simp add: recordingCamera_eq readyCamera_eq initialCamera_def)
qed

lemma manual_stop:
  "outputs (recorderStops [7, 7] (stopRecording ((intervalFires 1 ^^ 3) recordingCamera))) =
     [RecorderStart [0, 1],
      Capture \<lparr>fileName = ''drill_recording.webm'', fileType = ''video/webm'', fileData = [7, 7]\<rparr>]
   \<and> intervals (stopRecording ((intervalFires 1 ^^ 3) recordingCamera)) = {}
   \<and> stopEvents (recorderStops [7, 7] (stopRecording ((intervalFires 1 ^^ 3) recordingCamera))) = 0"
  unfolding three_ticks
  by (simp add: recordingCamera_eq readyCamera_eq initialCamera_def camera_defs)

lemma two_waits:
  "afterWaits 2 readyCamera =
     readyCamera\<lparr>isCountingDown := True, countdownValue := Some 3, timeouts := [3],
       outputs := [CountdownValue (Some 5), Beep 800 sine, CountdownValue (Some 4), Beep 800 sine,
                   CountdownValue (Some 3), Beep 800 sine]\<rparr>"
  by (simp add: afterWaits_def eval_nat_numeral readyCamera_eq initialCamera_def camera_defs)

lemma tornDownCamera_eq:
  "tornDownCamera =
     readyCamera\<lparr>mounted := False, videoRef := None, endedTracks := {0, 1},
       isCountingDown := True, countdownValue := Some 3, timeouts := [3],
       outputs := [CountdownValue (Some 5), Beep 800 sine, CountdownValue (Some 4), Beep 800 sine,
                   CountdownValue (Some 3), Beep 800 sine]\<rparr>"
  by (simp add: tornDownCamera_def two_waits)
     (simp add: readyCamera_eq initialCamera_def camera_defs insert_commute)










text \<open>
  C1. The interval's updater stops the recorder only when it finds the time already at 10,
  which is on the eleventh tick: after ten ticks of a recording nobody stops, the recorder is
  still recording, no stop is queued and no file has been handed over. The eleventh tick stops
  it and clears the interval, and the one stop then delivers one file.
\<close>

theorem auto_stop_fires_on_eleventh_tick:
  "mediaRecorderRef ((intervalFires 1 ^^ 10) recordingCamera) = Some recording \<and>
   stopEvents ((intervalFires 1 ^^ 10) recordingCamera) = 0 \<and>
   outputs ((intervalFires 1 ^^ 10) recordingCamera) = [RecorderStart [0, 1]] \<and>
   mediaRecorderRef ((intervalFires 1 ^^ 11) recordingCamera) = Some inactive \<and>
   stopEvents ((intervalFires 1 ^^ 11) recordingCamera) = 1 \<and>
   intervals ((intervalFires 1 ^^ 11) recordingCamera) = {} \<and>
   outputs (recorderStops [7, 7] ((intervalFires 1 ^^ 11) recordingCamera)) =
     [RecorderStart [0, 1],
      Capture \<lparr>fileName = ''drill_recording.webm'', fileType = ''video/webm'', fileData = [7, 7]\<rparr>]"
  unfolding ten_ticks eleven_ticks
  by (simp add: recordingCamera_eq readyCamera_eq initialCamera_def camera_defs)


text \<open>
  C4. Teardown two seconds into a countdown stops both tracks of the stream and leaves no
  interval, and leaves the countdown's one-second wait pending: when it runs out the loop goes
  on after the teardown, with the ticks 2 and 1, their tones and the final tone. No recording
  is started, since the \<^verbatim>\<open><video>\<close> element is gone.
\<close>

theorem countdown_wait_survives_teardown:
  "endedTracks tornDownCamera = {0, 1} \<and>
   intervals tornDownCamera = {} \<and>
   timeouts tornDownCamera = [3] \<and>
   outputs (timeoutFires tornDownCamera) =
     outputs tornDownCamera @ [CountdownValue (Some 2), Beep 800 sine] \<and>
   outputs ((timeoutFires ^^ 3) tornDownCamera) =
     outputs tornDownCamera @
       [CountdownValue (Some 2), Beep 800 sine, CountdownValue (Some 1), Beep 800 sine,
        Beep 1200 square, CountdownValue None] \<and>
   mediaRecorderRef ((timeoutFires ^^ 3) tornDownCamera) = None"
  by (simp add: tornDownCamera_eq eval_nat_numeral)
     (simp add: readyCamera_eq initialCamera_def camera_defs)






end
